theory Spec2Isabelle
  imports Complex_Main "HOL-Library.AList"
begin

section \<open>The distribution engine of the ghost network (class GhostDistributed)\<close>

text \<open>
  The engine is the TypeScript class \<open>GhostDistributed\<close>. Its fields become one record of
  state, its methods become functions from state to state, and everything a method does to
  the outside world (\<open>emit\<close>, \<open>ghostClient.sendToPeer\<close>, \<open>ghostClient.broadcast\<close>) is
  appended to a trace kept in the state.

  A JavaScript number is modelled by the rational value of a finite double (\<open>rat\<close>), and
  every addition, subtraction and division of the source rounds its exact result to the
  nearest double, as IEEE 754 has it (\<open>js_add\<close>, \<open>js_sub\<close>, \<open>js_div\<close> below).
  \<open>NaN\<close>, the infinities (a result beyond the largest double among them) and the sign of
  zero are outside the model. Counters that the code only ever increments from zero are
  natural numbers.
\<close>

subsection \<open>Data (shared/ghost-types, DeviceScore, DistributedTask, DistributedMetrics)\<close>

datatype DeviceRole = master | compute | storage | display

record PeerCapabilities =
  hasGPU :: bool
  hasWASM :: bool
  maxMemory :: rat
  bandwidth :: rat
  canRender :: bool
  canCompute :: bool
  canStore :: bool

text \<open>Of a \<open>GhostPeer\<close> the engine reads \<open>id\<close>, \<open>name\<close> and \<open>capabilities\<close> only.\<close>

record GhostPeer =
  peer_id :: string
  peer_name :: string
  peer_capabilities :: PeerCapabilities

record DeviceScore =
  peerId :: string
  peerName :: string
  score :: rat
  capabilities :: PeerCapabilities
  suggestedRole :: DeviceRole
  latency :: rat

datatype TaskType = render | physics | audio | texture | input

text \<open>The string a task type is at run time; \<open>findBestDeviceForTask\<close> switches on it.\<close>

fun taskTypeName :: "TaskType \<Rightarrow> string" where
  "taskTypeName render = ''render''"
| "taskTypeName physics = ''physics''"
| "taskTypeName audio = ''audio''"
| "taskTypeName texture = ''texture''"
| "taskTypeName input = ''input''"

text \<open>\<open>task_data\<close> is the \<open>ArrayBuffer | null\<close>: the bytes, or \<open>None\<close>.\<close>

record DistributedTask =
  task_id :: string
  task_type :: TaskType
  task_data :: "nat list option"
  task_timestamp :: rat

record DistributedMetrics =
  totalDevices :: nat
  masterDevice :: "string option"
  avgLatency :: rat
  totalBandwidth :: rat
  framesProcessed :: nat
  tasksDistributed :: nat
  failedTasks :: nat

subsection \<open>JavaScript numbers: double arithmetic\<close>

text \<open>The number of binary digits of a positive integer, and the powers of two.\<close>

function bitLength :: "int \<Rightarrow> int" where
  "bitLength n = (if n \<le> 0 then 0 else 1 + bitLength (n div 2))"
  by pat_completeness auto
termination
  by (relation "measure nat") auto

declare bitLength.simps [simp del]

function pow2p :: "int \<Rightarrow> rat" where
  "pow2p e =
     (if e \<le> 0 then 1
      else if even e then pow2p (e div 2) * pow2p (e div 2)
      else 2 * (pow2p (e div 2) * pow2p (e div 2)))"
  by pat_completeness auto
termination
  by (relation "measure nat") auto

declare pow2p.simps [simp del]

definition pow2 :: "int \<Rightarrow> rat" where
  "pow2 e = (if e \<ge> 0 then pow2p e else 1 / pow2p (- e))"

text \<open>
  For \<open>x > 0\<close>, the exponent \<open>e\<close> with \<open>2^e \<le> x < 2^(e+1)\<close>: one less than the bit length
  of the integer part of \<open>x\<close> if \<open>x \<ge> 1\<close>; otherwise \<open>2^(-e)\<close> is the least power of two
  that is at least \<open>1 / x\<close>.
\<close>

definition ilog2 :: "rat \<Rightarrow> int" where
  "ilog2 x = (if x \<ge> 1 then bitLength \<lfloor>x\<rfloor> - 1 else - bitLength (\<lceil>1 / x\<rceil> - 1))"

text \<open>
  Rounding a non-negative rational \<open>r\<close> to an integer, a half to the even neighbour;
  \<open>n\<close> is the integer part of \<open>r\<close>.
\<close>

definition tieToEven :: "rat \<Rightarrow> int \<Rightarrow> int" where
  "tieToEven r n =
     (if r - of_int n < 1 / 2 then n
      else if r - of_int n > 1 / 2 then n + 1
      else if even n then n else n + 1)"

definition roundHalfEven :: "rat \<Rightarrow> int" where
  "roundHalfEven r = tieToEven r \<lfloor>r\<rfloor>"

text \<open>
  The double nearest to \<open>x\<close> (round to nearest, ties to even): a significand of 53 bits,
  so the last place is \<open>2^q\<close> with \<open>q = e - 52\<close>, and \<open>q = -1074\<close> in the subnormal range.
\<close>

definition roundAt :: "rat \<Rightarrow> int \<Rightarrow> rat" where
  "roundAt x q = sgn x * of_int (roundHalfEven (\<bar>x\<bar> / pow2 q)) * pow2 q"

definition toDouble :: "rat \<Rightarrow> rat" where
  "toDouble x = (if x = 0 then 0 else roundAt x (max (ilog2 \<bar>x\<bar> - 52) (- 1074)))"

text \<open>The operators \<open>+\<close>, \<open>-\<close> and \<open>/\<close> of the source.\<close>

definition js_add :: "rat \<Rightarrow> rat \<Rightarrow> rat" where
  "js_add a b = toDouble (a + b)"

definition js_sub :: "rat \<Rightarrow> rat \<Rightarrow> rat" where
  "js_sub a b = toDouble (a - b)"

definition js_div :: "rat \<Rightarrow> rat \<Rightarrow> rat" where
  "js_div a b = toDouble (a / b)"

subsection \<open>Scoring and role suggestion\<close>

text \<open>
  \<open>Math.round\<close> rounds to the nearest integer, a half towards plus infinity; it is
  exact on a double (it does not add one half in double arithmetic).
\<close>

definition Math_round :: "rat \<Rightarrow> rat" where
  "Math_round x = of_int \<lfloor>x + 1 / 2\<rfloor>"

definition calculateDeviceScore :: "PeerCapabilities \<Rightarrow> rat \<Rightarrow> rat" where
  "calculateDeviceScore caps lat =
     (let score = 0;
          score = (if hasGPU caps then js_add score 40 else score);
          score = (if hasWASM caps then js_add score 20 else score);
          score = (if canRender caps then js_add score 20 else score);
          score = (if canCompute caps then js_add score 10 else score);
          score = js_add score (min (js_div (maxMemory caps) 1024) 10);
          score = js_add score (min (js_div (bandwidth caps) 10) 10);
          score = js_sub score (min (js_div lat 10) 20)
      in max 0 (Math_round score))"

definition suggestRole :: "PeerCapabilities \<Rightarrow> rat \<Rightarrow> DeviceRole" where
  "suggestRole caps sc =
     (if sc \<ge> 70 \<and> hasGPU caps \<and> canRender caps then master
      else if sc \<ge> 50 \<and> hasWASM caps \<and> canCompute caps then compute
      else if sc \<ge> 30 \<and> canStore caps then storage
      else display)"

text \<open>
  The base contribution of the capability flags, as the specification words it, and a
  profile with no capability but a 7 Mbps link.
\<close>

definition baseContribution :: "PeerCapabilities \<Rightarrow> rat" where
  "baseContribution caps =
     (if hasGPU caps then 40 else 0) + (if hasWASM caps then 20 else 0)
     + (if canRender caps then 20 else 0) + (if canCompute caps then 10 else 0)"

definition slowLinkCaps :: PeerCapabilities where
  "slowLinkCaps = \<lparr>hasGPU = False, hasWASM = False, maxMemory = 0, bandwidth = 7,
                   canRender = False, canCompute = False, canStore = False\<rparr>"

definition fullProfile :: PeerCapabilities where
  "fullProfile = \<lparr>hasGPU = True, hasWASM = True, maxMemory = 10240, bandwidth = 100,
                  canRender = True, canCompute = True, canStore = True\<rparr>"

subsection \<open>Messages between peers and what the engine does to the outside\<close>

text \<open>
  The payloads that cross the peer link. Inbound data is untyped in the source
  (\<open>data: any\<close>); the model gives each message kind the fields the engine reads, and
  \<open>Other\<close> stands for every \<open>type\<close> the \<open>switch\<close> has no case for.
\<close>

record WireTask =
  wt_id :: string
  wt_type :: string
  wt_dataSize :: nat
  wt_timestamp :: rat

record TaskResultPayload =
  processed :: bool
  deviceId :: string

record Frame =
  frame_id :: rat
  rendered :: bool
  frame_timestamp :: rat

datatype PeerMessage =
    LatencyPing rat string
  | LatencyPong rat string
  | TaskAssign WireTask
  | TaskResult string TaskResultPayload
  | FrameData Frame
  | RenderRequest rat rat
  | Other string

datatype Notification =
    PeerDiscovered string
  | Initialized rat PeerCapabilities
  | ScoresUpdated "DeviceScore list"
  | RoleChanged DeviceRole bool
  | MasterElected string
  | LatencyMeasured string rat
  | TaskReceived WireTask
  | TaskCompleted string TaskResultPayload string
  | FrameReceived string Frame
  | Started
  | Stopped

text \<open>
  \<open>Emit\<close> is a call of \<open>this.emit\<close>, \<open>SendToPeer\<close> of \<open>ghostClient.sendToPeer\<close>, and
  \<open>BroadcastAfter ms\<close> a \<open>ghostClient.broadcast\<close> scheduled with \<open>setTimeout\<close>.
\<close>

datatype Effect =
    Emit Notification
  | SendToPeer string PeerMessage
  | BroadcastAfter nat PeerMessage

record CompletedTask =
  ct_result :: TaskResultPayload
  ct_from :: string
  ct_completedAt :: rat

subsection \<open>JavaScript maps and truthiness\<close>

text \<open>
  A JavaScript \<open>Map\<close> iterates in insertion order and \<open>set\<close> on a present key keeps the
  key's place: an association list with \<open>AList.update\<close> and \<open>AList.delete\<close>.
\<close>

definition Map_has :: "(string \<times> 'v) list \<Rightarrow> string \<Rightarrow> bool" where
  "Map_has m k = (map_of m k \<noteq> None)"

definition Map_get :: "(string \<times> 'v) list \<Rightarrow> string \<Rightarrow> 'v option" where
  "Map_get m k = map_of m k"

definition Map_set :: "string \<Rightarrow> 'v \<Rightarrow> (string \<times> 'v) list \<Rightarrow> (string \<times> 'v) list" where
  "Map_set k v m = AList.update k v m"

definition Map_delete :: "string \<Rightarrow> (string \<times> 'v) list \<Rightarrow> (string \<times> 'v) list" where
  "Map_delete k m = AList.delete k m"

definition Map_values :: "(string \<times> 'v) list \<Rightarrow> 'v list" where
  "Map_values m = map snd m"

text \<open>A \<open>string | null\<close> in a condition: \<open>null\<close> and the empty string are falsy.\<close>

fun truthy :: "string option \<Rightarrow> bool" where
  "truthy None = False"
| "truthy (Some str) = (str \<noteq> [])"

subsection \<open>The state of the engine\<close>

record State =
  myRole :: DeviceRole
  masterPeerId :: "string option"
  deviceScores :: "(string \<times> DeviceScore) list"
  pendingTasks :: "(string \<times> DistributedTask) list"
  completedTasks :: "(string \<times> CompletedTask) list"
  latencyTests :: "(string \<times> rat list) list"
  isRunning :: bool
  metrics :: DistributedMetrics
  trace :: "Effect list"

definition initialState :: State where
  "initialState =
     \<lparr>myRole = display, masterPeerId = None, deviceScores = [], pendingTasks = [],
      completedTasks = [], latencyTests = [], isRunning = False,
      metrics = \<lparr>totalDevices = 0, masterDevice = None, avgLatency = 0, totalBandwidth = 0,
                 framesProcessed = 0, tasksDistributed = 0, failedTasks = 0\<rparr>,
      trace = []\<rparr>"

definition emit :: "Notification \<Rightarrow> State \<Rightarrow> State" where
  "emit ev s = s\<lparr>trace := trace s @ [Emit ev]\<rparr>"

definition sendToPeer :: "string \<Rightarrow> PeerMessage \<Rightarrow> State \<Rightarrow> State" where
  "sendToPeer to msg s = s\<lparr>trace := trace s @ [SendToPeer to msg]\<rparr>"

text \<open>
  In all that follows \<open>me\<close> is \<open>ghostClient.getPeerId()\<close>, fixed when the client is
  constructed, and \<open>now\<close> is the reading of the clock the method consults.
\<close>

subsection \<open>startWiFiDiscovery (the body of the discovery timer) and initialize\<close>

fun wifiDiscovered :: "string list \<Rightarrow> State \<Rightarrow> State" where
  "wifiDiscovered [] s = s"
| "wifiDiscovered (device # discovered) s =
     (if \<not> Map_has (deviceScores s) device
      then wifiDiscovered discovered (emit (PeerDiscovered device) s)
      else wifiDiscovered discovered s)"

definition initialize :: "string \<Rightarrow> string \<Rightarrow> PeerCapabilities \<Rightarrow> State \<Rightarrow> State" where
  "initialize me myName myCapabilities s =
     (let myScore = calculateDeviceScore myCapabilities 0;
          s = s\<lparr>deviceScores := Map_set me
                 \<lparr>peerId = me, peerName = myName, score = myScore,
                  capabilities = myCapabilities,
                  suggestedRole = suggestRole myCapabilities myScore, latency = 0\<rparr>
                 (deviceScores s)\<rparr>
      in emit (Initialized myScore myCapabilities) s)"

subsection \<open>electMaster\<close>

fun electLoop1 :: "(string \<times> DeviceScore) list \<Rightarrow> rat \<times> string option \<Rightarrow> rat \<times> string option"
  where
  "electLoop1 [] acc = acc"
| "electLoop1 ((pid, deviceScore) # entries) (bestScore, bestPeerId) =
     (if score deviceScore > bestScore \<and> suggestedRole deviceScore = master
      then electLoop1 entries (score deviceScore, Some pid)
      else electLoop1 entries (bestScore, bestPeerId))"

fun electLoop2 :: "(string \<times> DeviceScore) list \<Rightarrow> rat \<times> string option \<Rightarrow> rat \<times> string option"
  where
  "electLoop2 [] acc = acc"
| "electLoop2 ((pid, deviceScore) # entries) (bestScore, bestPeerId) =
     (if score deviceScore > bestScore
      then electLoop2 entries (score deviceScore, Some pid)
      else electLoop2 entries (bestScore, bestPeerId))"

text \<open>The two loops of \<open>electMaster\<close>: the value of \<open>bestPeerId\<close> after them.\<close>

definition electWinner :: "(string \<times> DeviceScore) list \<Rightarrow> string option" where
  "electWinner entries =
     (let acc = electLoop1 entries (- 1, None);
          acc = (if \<not> truthy (snd acc) then electLoop2 entries acc else acc)
      in snd acc)"

text \<open>
  The guard \<open>bestPeerId && bestPeerId !== this.masterPeerId\<close>: \<open>null\<close> and the empty
  string are falsy, so neither is ever elected.
\<close>

definition electMaster :: "string \<Rightarrow> State \<Rightarrow> State" where
  "electMaster me s =
     (case electWinner (deviceScores s) of
        None \<Rightarrow> s
      | Some bestPeerId \<Rightarrow>
          if bestPeerId \<noteq> [] \<and> Some bestPeerId \<noteq> masterPeerId s
          then let s = s\<lparr>masterPeerId := Some bestPeerId\<rparr>;
                   s = s\<lparr>metrics := (metrics s)\<lparr>masterDevice := Some bestPeerId\<rparr>\<rparr>;
                   s = (if bestPeerId = me
                        then emit (RoleChanged master True) (s\<lparr>myRole := master\<rparr>)
                        else let s = s\<lparr>myRole :=
                                        (case Map_get (deviceScores s) me of
                                           None \<Rightarrow> display
                                         | Some myDevice \<Rightarrow> suggestedRole myDevice)\<rparr>
                             in emit (RoleChanged (myRole s) False) s)
               in emit (MasterElected bestPeerId) s
          else s)"

subsection \<open>updateDeviceScores\<close>

fun updateDeviceScores_loop :: "GhostPeer list \<Rightarrow> State \<Rightarrow> State" where
  "updateDeviceScores_loop [] s = s"
| "updateDeviceScores_loop (peer # peers) s =
     (if \<not> Map_has (deviceScores s) (peer_id peer)
      then let lat = (case Map_get (latencyTests s) (peer_id peer) of
                        None \<Rightarrow> 50
                      | Some [] \<Rightarrow> 50
                      | Some (first # _) \<Rightarrow> if first = 0 then 50 else first);
               sc = calculateDeviceScore (peer_capabilities peer) lat
           in updateDeviceScores_loop peers
                (s\<lparr>deviceScores := Map_set (peer_id peer)
                     \<lparr>peerId = peer_id peer, peerName = peer_name peer, score = sc,
                      capabilities = peer_capabilities peer,
                      suggestedRole = suggestRole (peer_capabilities peer) sc,
                      latency = lat\<rparr>
                     (deviceScores s)\<rparr>)
      else updateDeviceScores_loop peers s)"

definition updateDeviceScores :: "string \<Rightarrow> GhostPeer list \<Rightarrow> State \<Rightarrow> State" where
  "updateDeviceScores me peers s =
     (let s = updateDeviceScores_loop peers s;
          s = electMaster me s;
          s = s\<lparr>metrics := (metrics s)\<lparr>totalDevices := length (deviceScores s)\<rparr>\<rparr>
      in emit (ScoresUpdated (Map_values (deviceScores s))) s)"

subsection \<open>Latency: measureLatency, the latency-pong case, updateAverageLatency\<close>

definition measureLatency :: "string \<Rightarrow> rat \<Rightarrow> string \<Rightarrow> State \<Rightarrow> State" where
  "measureLatency me now pid s = sendToPeer pid (LatencyPing now me) s"

fun updateAverageLatency_loop :: "rat list list \<Rightarrow> rat \<times> nat \<Rightarrow> rat \<times> nat" where
  "updateAverageLatency_loop [] acc = acc"
| "updateAverageLatency_loop (latencies # rest) (tot, count) =
     (if length latencies > 0
      then updateAverageLatency_loop rest (js_add tot (last latencies), count + 1)
      else updateAverageLatency_loop rest (tot, count))"

definition updateAverageLatency :: "State \<Rightarrow> State" where
  "updateAverageLatency s =
     (let (tot, count) = updateAverageLatency_loop (Map_values (latencyTests s)) (0, 0)
      in s\<lparr>metrics := (metrics s)\<lparr>avgLatency :=
              (if count > 0 then js_div tot (of_nat count) else 0)\<rparr>\<rparr>)"

text \<open>The body of \<open>case "latency-pong"\<close>, from the sample \<open>lat\<close> it has computed.\<close>

definition latencyPong :: "string \<Rightarrow> rat \<Rightarrow> State \<Rightarrow> State" where
  "latencyPong sender lat s =
     (let s = (if \<not> Map_has (latencyTests s) sender
               then s\<lparr>latencyTests := Map_set sender [] (latencyTests s)\<rparr> else s);
          s = (case Map_get (latencyTests s) sender of
                 Some samples \<Rightarrow>
                   s\<lparr>latencyTests := Map_set sender (samples @ [lat]) (latencyTests s)\<rparr>
               | None \<Rightarrow> s);
          s = (case Map_get (deviceScores s) sender of
                 Some deviceScore \<Rightarrow>
                   s\<lparr>deviceScores := Map_set sender
                        (deviceScore\<lparr>latency := lat,
                           score := calculateDeviceScore (capabilities deviceScore) lat\<rparr>)
                        (deviceScores s)\<rparr>
               | None \<Rightarrow> s);
          s = updateAverageLatency s
      in emit (LatencyMeasured sender lat) s)"

subsection \<open>Tasks: distributeTask, findBestDeviceForTask, assignment, result\<close>

text \<open>The body of the loop of \<open>findBestDeviceForTask\<close> up to the comparison.\<close>

definition suitability :: "string \<Rightarrow> DeviceScore \<Rightarrow> rat" where
  "suitability taskType device =
     (let suit = score device;
          suit = (if taskType = ''render''
                  then (if hasGPU (capabilities device) \<and> canRender (capabilities device)
                        then js_add suit 30 else suit)
                  else if taskType = ''physics'' \<or> taskType = ''compute''
                  then (if hasWASM (capabilities device) \<and> canCompute (capabilities device)
                        then js_add suit 20 else suit)
                  else if taskType = ''texture'' \<or> taskType = ''storage''
                  then (if canStore (capabilities device) then js_add suit 15 else suit)
                  else suit)
      in js_sub suit (js_div (latency device) 5))"

fun findBestDeviceForTask_loop ::
  "string \<Rightarrow> string \<Rightarrow> DeviceScore list \<Rightarrow> DeviceScore option \<times> rat \<Rightarrow> DeviceScore option \<times> rat"
  where
  "findBestDeviceForTask_loop me taskType [] acc = acc"
| "findBestDeviceForTask_loop me taskType (device # devices) (bestDevice, bestScore) =
     (if peerId device = me
      then findBestDeviceForTask_loop me taskType devices (bestDevice, bestScore)
      else if suitability taskType device > bestScore
      then findBestDeviceForTask_loop me taskType devices
             (Some device, suitability taskType device)
      else findBestDeviceForTask_loop me taskType devices (bestDevice, bestScore))"

definition findBestDeviceForTask :: "string \<Rightarrow> string \<Rightarrow> State \<Rightarrow> DeviceScore option" where
  "findBestDeviceForTask me taskType s =
     fst (findBestDeviceForTask_loop me taskType (Map_values (deviceScores s)) (None, - 1))"

text \<open>\<open>distributeTask\<close> returns its boolean together with the state it leaves.\<close>

definition distributeTask :: "string \<Rightarrow> DistributedTask \<Rightarrow> State \<Rightarrow> bool \<times> State" where
  "distributeTask me task s =
     (if \<not> isRunning s then (False, s)
      else case findBestDeviceForTask me (taskTypeName (task_type task)) s of
        None \<Rightarrow> (False, s\<lparr>metrics := (metrics s)\<lparr>failedTasks := failedTasks (metrics s) + 1\<rparr>\<rparr>)
      | Some targetDevice \<Rightarrow>
          (let s = s\<lparr>pendingTasks := Map_set (task_id task) task (pendingTasks s)\<rparr>;
               s = sendToPeer (peerId targetDevice)
                     (TaskAssign \<lparr>wt_id = task_id task,
                                  wt_type = taskTypeName (task_type task),
                                  wt_dataSize = (case task_data task of
                                                   None \<Rightarrow> 0 | Some bytes \<Rightarrow> length bytes),
                                  wt_timestamp = task_timestamp task\<rparr>) s;
               s = s\<lparr>metrics := (metrics s)
                      \<lparr>tasksDistributed := tasksDistributed (metrics s) + 1\<rparr>\<rparr>
           in (True, s)))"

definition handleTaskAssignment :: "string \<Rightarrow> WireTask \<Rightarrow> State \<Rightarrow> State" where
  "handleTaskAssignment me task s =
     (let s = emit (TaskReceived task) s
      in s\<lparr>trace := trace s @
              [BroadcastAfter 10
                 (TaskResult (wt_id task) \<lparr>processed = True, deviceId = me\<rparr>)]\<rparr>)"

definition handleTaskResult ::
  "rat \<Rightarrow> string \<Rightarrow> string \<Rightarrow> TaskResultPayload \<Rightarrow> State \<Rightarrow> State" where
  "handleTaskResult now sender taskId result s =
     (case Map_get (pendingTasks s) taskId of
        Some task \<Rightarrow>
          (let s = s\<lparr>pendingTasks := Map_delete taskId (pendingTasks s)\<rparr>;
               s = s\<lparr>completedTasks := Map_set taskId
                      \<lparr>ct_result = result, ct_from = sender, ct_completedAt = now\<rparr>
                      (completedTasks s)\<rparr>
           in emit (TaskCompleted taskId result sender) s)
      | None \<Rightarrow> s)"

subsection \<open>Rendering, start and stop\<close>

definition processRenderRequest :: "rat \<Rightarrow> string \<Rightarrow> rat \<Rightarrow> State \<Rightarrow> State" where
  "processRenderRequest now sender frameId s =
     (let s = s\<lparr>metrics := (metrics s)\<lparr>framesProcessed := framesProcessed (metrics s) + 1\<rparr>\<rparr>
      in sendToPeer sender
           (FrameData \<lparr>frame_id = frameId, rendered = True, frame_timestamp = now\<rparr>) s)"

definition requestRender :: "string \<Rightarrow> rat \<Rightarrow> rat \<Rightarrow> State \<Rightarrow> State" where
  "requestRender me now frameId s =
     (case masterPeerId s of
        None \<Rightarrow> s
      | Some m \<Rightarrow> if m \<noteq> [] \<and> m \<noteq> me
                  then sendToPeer m (RenderRequest frameId now) s else s)"

definition start :: "State \<Rightarrow> State" where
  "start s = emit Started (s\<lparr>isRunning := True\<rparr>)"

definition stop :: "State \<Rightarrow> State" where
  "stop s = emit Stopped (s\<lparr>isRunning := False, pendingTasks := []\<rparr>)"

subsection \<open>handlePeerMessage\<close>

fun handlePeerMessage :: "string \<Rightarrow> rat \<Rightarrow> string \<Rightarrow> PeerMessage \<Rightarrow> State \<Rightarrow> State" where
  "handlePeerMessage me now sender (LatencyPing timestamp _) s =
     sendToPeer sender (LatencyPong timestamp me) s"
| "handlePeerMessage me now sender (LatencyPong originalTimestamp _) s =
     latencyPong sender (js_sub now originalTimestamp) s"
| "handlePeerMessage me now sender (TaskAssign task) s = handleTaskAssignment me task s"
| "handlePeerMessage me now sender (TaskResult taskId result) s =
     handleTaskResult now sender taskId result s"
| "handlePeerMessage me now sender (FrameData frame) s = emit (FrameReceived sender frame) s"
| "handlePeerMessage me now sender (RenderRequest frameId _) s =
     (if myRole s = master \<or> myRole s = compute
      then processRenderRequest now sender frameId s else s)"
| "handlePeerMessage me now sender (Other _) s = s"

subsection \<open>Everything that can happen to an engine\<close>

text \<open>
  The listeners the constructor registers, the timer of the discovery, and the public
  methods that write state. \<open>Initialize False\<close> is an \<open>initialize\<close> whose
  \<open>ghostClient.connect()\<close> rejects: the promise rejects before the engine is touched.
\<close>

datatype Event =
    Initialize bool string PeerCapabilities
  | PeersUpdated "GhostPeer list"
  | Data rat string PeerMessage
  | ChannelOpen rat string
  | WiFiDiscovered "string list"
  | DistributeTask DistributedTask
  | RequestRender rat rat
  | Start
  | Stop

fun step :: "string \<Rightarrow> State \<Rightarrow> Event \<Rightarrow> State" where
  "step me s (Initialize isConnected myName myCapabilities) =
     (if isConnected then initialize me myName myCapabilities s else s)"
| "step me s (PeersUpdated peers) = updateDeviceScores me peers s"
| "step me s (Data now sender msg) = handlePeerMessage me now sender msg s"
| "step me s (ChannelOpen now pid) = measureLatency me now pid s"
| "step me s (WiFiDiscovered discovered) = wifiDiscovered discovered s"
| "step me s (DistributeTask task) = snd (distributeTask me task s)"
| "step me s (RequestRender now frameId) = requestRender me now frameId s"
| "step me s Start = start s"
| "step me s Stop = stop s"

definition run :: "string \<Rightarrow> Event list \<Rightarrow> State \<Rightarrow> State" where
  "run me events s = foldl (step me) s events"

subsection \<open>The average the specification describes\<close>

text \<open>
  Written from the specification's words, to compare \<open>updateAverageLatency\<close> with: the
  most recent sample of every peer that has at least one, and their arithmetic mean (0 when
  there is none), the sum and the quotient taken in double arithmetic.
\<close>

definition latestSamples :: "(string \<times> rat list) list \<Rightarrow> rat list" where
  "latestSamples tests = map last (filter (\<lambda>samples. samples \<noteq> []) (map snd tests))"

definition meanOfLatest :: "(string \<times> rat list) list \<Rightarrow> rat" where
  "meanOfLatest tests =
     (if latestSamples tests = [] then 0
      else js_div (foldl js_add 0 (latestSamples tests))
             (of_nat (length (latestSamples tests))))"




subsection \<open>The selection the specification describes\<close>

text \<open>
  Written from the specification's words, to compare \<open>findBestDeviceForTask\<close> with: the
  element of a list with the maximum value of \<open>f\<close>, the earliest one if several have it.
\<close>

fun firstMax :: "('a \<Rightarrow> rat) \<Rightarrow> 'a list \<Rightarrow> 'a option" where
  "firstMax f [] = None"
| "firstMax f (x # xs) =
     (case firstMax f xs of
        None \<Rightarrow> Some x
      | Some y \<Rightarrow> if f y > f x then Some y else Some x)"

subsection \<open>Concrete engines and tasks for the examples\<close>

definition sampleTask :: DistributedTask where
  "sampleTask = \<lparr>task_id = ''t1'', task_type = render, task_data = None, task_timestamp = 0\<rparr>"

text \<open>A node alone in its directory, after \<open>initialize\<close> and one election.\<close>

definition electedState :: State where
  "electedState = electMaster ''me'' (initialize ''me'' ''Me'' fullProfile initialState)"

text \<open>The same node once started, and an engine with one task pending.\<close>

definition aloneRunning :: State where
  "aloneRunning = start (initialize ''me'' ''Me'' fullProfile initialState)"

definition pendingState :: State where
  "pendingState = initialState\<lparr>pendingTasks := [(''t1'', sampleTask)]\<rparr>"

definition sampleResult :: TaskResultPayload where
  "sampleResult = \<lparr>processed = True, deviceId = ''p''\<rparr>"

text \<open>
  Two nodes that render but do not compute: the local one scores 70, the remote one 75 at
  the bootstrap latency of 50 ms, so the remote one is elected.
\<close>

definition weakCaps :: PeerCapabilities where
  "weakCaps = \<lparr>hasGPU = True, hasWASM = False, maxMemory = 10240, bandwidth = 0,
               canRender = True, canCompute = False, canStore = True\<rparr>"

definition gpuCaps :: PeerCapabilities where
  "gpuCaps = \<lparr>hasGPU = True, hasWASM = False, maxMemory = 10240, bandwidth = 100,
              canRender = True, canCompute = False, canStore = True\<rparr>"

definition gpuPeer :: GhostPeer where
  "gpuPeer = \<lparr>peer_id = ''p'', peer_name = ''P'', peer_capabilities = gpuCaps\<rparr>"

definition twoPeers :: State where
  "twoPeers = run ''me'' [Initialize True ''Me'' weakCaps, PeersUpdated [gpuPeer]] initialState"





text \<open>
  A storage-only device joins a started node: at the bootstrap latency of 50 ms it scores 0.
  And a directory of two remote records with the scores 60 (no GPU) and 50 (GPU).
\<close>

definition storageCaps :: PeerCapabilities where
  "storageCaps = \<lparr>hasGPU = False, hasWASM = False, maxMemory = 1024, bandwidth = 10,
                  canRender = False, canCompute = False, canStore = True\<rparr>"

definition storagePeer :: GhostPeer where
  "storagePeer = \<lparr>peer_id = ''p'', peer_name = ''P'', peer_capabilities = storageCaps\<rparr>"

definition withStoragePeer :: State where
  "withStoragePeer =
     run ''me'' [Initialize True ''Me'' fullProfile, PeersUpdated [storagePeer], Start]
       initialState"

definition gpuRecord :: DeviceScore where
  "gpuRecord = \<lparr>peerId = ''a'', peerName = ''A'', score = 50, capabilities = gpuCaps,
                suggestedRole = display, latency = 50\<rparr>"

definition plainRecord :: DeviceScore where
  "plainRecord = \<lparr>peerId = ''b'', peerName = ''B'', score = 60, capabilities = storageCaps,
                  suggestedRole = storage, latency = 50\<rparr>"

definition affinityState :: State where
  "affinityState = initialState\<lparr>deviceScores := [(''b'', plainRecord), (''a'', gpuRecord)]\<rparr>"

section \<open>Properties\<close>

subsection \<open>Double arithmetic\<close>

lemma pow2p_power: "pow2p e = 2 ^ nat e"
proof (induction e rule: pow2p.induct)
  case (1 e)
  show ?case
  proof (cases "e \<le> 0")
    case True
    then show ?thesis by (simp add: pow2p.simps [of e])
  next
    case False
    then have half: "pow2p (e div 2) = 2 ^ nat (e div 2)"
      using "1.IH" by (cases "even e") simp_all
    show ?thesis
    proof (cases "even e")
      case True
      with False have "nat e = nat (e div 2) + nat (e div 2)" by (auto elim!: evenE)
      then have "(2::rat) ^ nat e = 2 ^ nat (e div 2) * 2 ^ nat (e div 2)"
        by (simp only: power_add)
      with False True half show ?thesis by (simp add: pow2p.simps [of e])
    next
      case odd: False
      with False have "nat e = Suc (nat (e div 2) + nat (e div 2))" by (auto elim!: oddE)
      then have "(2::rat) ^ nat e = 2 * (2 ^ nat (e div 2) * 2 ^ nat (e div 2))"
        by (simp only: power_add power_Suc)
      with False odd half show ?thesis by (simp add: pow2p.simps [of e])
    qed
  qed
qed

lemma floor_rat_numeral_div:
  "\<lfloor>numeral a / numeral b :: rat\<rfloor> = numeral a div numeral b"
  "\<lfloor>1 / numeral b :: rat\<rfloor> = 1 div numeral b"
  by (metis floor_divide_of_int_eq of_int_numeral, metis floor_divide_of_int_eq of_int_numeral of_int_1)

lemma ceiling_rat_numeral_div:
  "\<lceil>numeral a / numeral b :: rat\<rceil> = - (- numeral a div numeral b)"
  "\<lceil>1 / numeral b :: rat\<rceil> = - (- 1 div numeral b)"
  unfolding ceiling_def
  by (metis floor_divide_of_int_eq of_int_numeral of_int_minus minus_divide_left,
      metis floor_divide_of_int_eq of_int_numeral of_int_1 of_int_minus minus_divide_left)

lemmas double_eval = toDouble_def roundAt_def roundHalfEven_def tieToEven_def ilog2_def
  pow2_def pow2p_power bitLength.simps js_add_def js_sub_def js_div_def
  floor_rat_numeral_div ceiling_rat_numeral_div


lemma bitLength_pos: "0 < m \<Longrightarrow> 1 \<le> bitLength m"
proof -
  assume m: "0 < m"
  have "0 \<le> bitLength k" for k
    by (induction k rule: bitLength.induct) (simp add: bitLength.simps)
  from this [of "m div 2"] m show ?thesis by (simp add: bitLength.simps [of m])
qed

lemma bitLength_le: "m < 2 ^ k \<Longrightarrow> bitLength m \<le> int k"
proof (induction k arbitrary: m)
  case 0
  then show ?case by (simp add: bitLength.simps [of m])
next
  case (Suc k)
  then have "m div 2 < 2 ^ k" by simp
  from Suc.IH [OF this] show ?case by (simp add: bitLength.simps [of m])
qed

lemma roundHalfEven_of_int: "roundHalfEven (of_int k) = k"
  by (simp add: roundHalfEven_def tieToEven_def)

text \<open>Every integer below \<open>2^53\<close> in absolute value is a double: rounding leaves it.\<close>

lemma toDouble_of_int:
  assumes "\<bar>n\<bar> < 2 ^ 53"
  shows "toDouble (of_int n) = of_int n"
proof (cases "n = 0")
  case True
  then show ?thesis by (simp add: toDouble_def)
next
  case False
  define m where "m = \<bar>n\<bar>"
  define j where "j = nat (53 - bitLength m)"
  from False have mpos: "0 < m" by (simp add: m_def)
  from assms have "bitLength m \<le> 53"
    using bitLength_le [of m 53] by (simp add: m_def)
  moreover from mpos have "1 \<le> bitLength m" by (rule bitLength_pos)
  ultimately have q: "max (bitLength m - 53) (- 1074) = - int j"
    by (simp add: j_def)
  have abs: "\<bar>rat_of_int n\<bar> = of_int m" by (simp add: m_def)
  from mpos have ge1: "(1::rat) \<le> of_int m" by simp
  have il: "ilog2 (of_int m) = bitLength m - 1"
    using ge1 by (simp add: ilog2_def)
  have p: "pow2 (- int j) = 1 / 2 ^ j"
    by (cases "j = 0") (simp_all add: pow2_def pow2p_power pow2p.simps [of 0])
  have sc: "rat_of_int m / (1 / 2 ^ j) = of_int (m * 2 ^ j)" by simp
  have "roundAt (of_int n) (- int j) = sgn (of_int n) * of_int (m * 2 ^ j) * (1 / 2 ^ j)"
    by (simp only: roundAt_def abs p sc roundHalfEven_of_int)
  also have "\<dots> = sgn (rat_of_int n) * of_int m" by simp
  also have "\<dots> = of_int n" by (simp add: m_def sgn_if)
  finally have "roundAt (of_int n) (- int j) = of_int n" .
  with False show ?thesis by (simp add: toDouble_def abs il q)
qed

text \<open>
  For evaluation: an integer in that range is returned as it is, anything else goes
  through the rounding.
\<close>

lemma toDouble_code [code]:
  "toDouble x =
     (if of_int \<lfloor>x\<rfloor> = x \<and> \<bar>x\<bar> < 9007199254740992 then x
      else if x = 0 then 0 else roundAt x (max (ilog2 \<bar>x\<bar> - 52) (- 1074)))"
proof (cases "of_int \<lfloor>x\<rfloor> = x \<and> \<bar>x\<bar> < 9007199254740992")
  case True
  then have x: "of_int \<lfloor>x\<rfloor> = x" and b: "\<bar>x\<bar> < 9007199254740992" by blast+
  from b have "\<bar>rat_of_int \<lfloor>x\<rfloor>\<bar> < 9007199254740992" by (simp only: x)
  then have "rat_of_int \<bar>\<lfloor>x\<rfloor>\<bar> < rat_of_int 9007199254740992" by simp
  then have "\<bar>\<lfloor>x\<rfloor>\<bar> < 9007199254740992" by (simp only: of_int_less_iff)
  then have "\<bar>\<lfloor>x\<rfloor>\<bar> < 2 ^ 53" by simp
  from toDouble_of_int [OF this] have "toDouble x = x" by (simp only: x)
  with True show ?thesis by (simp only: if_P)
next
  case False
  then show ?thesis by (simp only: if_False toDouble_def)
qed

text \<open>Double arithmetic at work: one tenth, the sum of 0.1 and 0.2, ties and integers.\<close>

lemma toDouble_examples:
  "toDouble (1 / 10) = 3602879701896397 / 36028797018963968
   \<and> js_add (toDouble (1 / 10)) (toDouble (2 / 10)) = 1351079888211149 / 4503599627370496
   \<and> toDouble (1 + 1 / 2 ^ 53) = 1
   \<and> toDouble (1 + 3 / 2 ^ 53) = 1 + 1 / 2 ^ 51
   \<and> toDouble 9007199254740993 = 9007199254740992
   \<and> toDouble (- (7 / 10)) = - (3152519739159347 / 4503599627370496)
   \<and> js_sub (js_add 40 (js_div 3 10)) (js_div 108 10) = 8303511812964351 / 281474976710656"
  by (simp add: double_eval)

subsection \<open>Scoring\<close>

lemma js_add_flags:
  "js_add 0 40 = 40 \<and> js_add 0 20 = 20 \<and> js_add 40 20 = 60 \<and> js_add 20 20 = 40
   \<and> js_add 60 20 = 80 \<and> js_add 0 10 = 10 \<and> js_add 20 10 = 30 \<and> js_add 40 10 = 50
   \<and> js_add 60 10 = 70 \<and> js_add 80 10 = 90"
  by (simp add: js_add_def toDouble_of_int [of 0, simplified] toDouble_of_int [of 10, simplified]
      toDouble_of_int [of 20, simplified] toDouble_of_int [of 30, simplified]
      toDouble_of_int [of 40, simplified] toDouble_of_int [of 50, simplified]
      toDouble_of_int [of 60, simplified] toDouble_of_int [of 70, simplified]
      toDouble_of_int [of 80, simplified] toDouble_of_int [of 90, simplified])

text \<open>
  The score in closed form; evaluation uses this equation in place of the chain of
  assignments it is proved equal to.
\<close>

lemma calculateDeviceScore_unfold [code]:
  "calculateDeviceScore caps lat =
     max 0 (Math_round
       (js_sub (js_add (js_add (baseContribution caps)
                          (min (js_div (maxMemory caps) 1024) 10))
                  (min (js_div (bandwidth caps) 10) 10))
          (min (js_div lat 10) 20)))"
  by (simp add: calculateDeviceScore_def baseContribution_def Let_def js_add_flags)

lemma Math_round_is_round: "Math_round x = of_int (round x)"
  by (simp add: Math_round_def round_def)

text \<open>
  C1 (as the code has it). For every capability profile and latency the score is
  \<open>max 0 (round (B + min (maxMemory/1024) 10 + min (bandwidth/10) 10 - min (latency/10) 20))\<close>
  with \<open>B\<close> the sum of the flag contributions 40, 20, 20 and 10, where the three quotients,
  the two sums and the difference are taken in double arithmetic, in this order; the profile
  with all four flags, 10240 MB, 100 Mbps and latency 0 scores exactly 110; the score is
  never negative.
\<close>

theorem calculateDeviceScore_formula:
  "calculateDeviceScore caps lat =
     max 0 (of_int (round
       (js_sub (js_add (js_add (baseContribution caps)
                          (min (js_div (maxMemory caps) 1024) 10))
                  (min (js_div (bandwidth caps) 10) 10))
          (min (js_div lat 10) 20))))
   \<and> calculateDeviceScore fullProfile 0 = 110
   \<and> 0 \<le> calculateDeviceScore caps lat"
proof -
  have a: "calculateDeviceScore caps lat =
     max 0 (of_int (round
       (js_sub (js_add (js_add (baseContribution caps)
                          (min (js_div (maxMemory caps) 1024) 10))
                  (min (js_div (bandwidth caps) 10) 10))
          (min (js_div lat 10) 20))))"
    by (simp only: calculateDeviceScore_unfold Math_round_is_round)
  have b: "calculateDeviceScore fullProfile 0 = 110"
    by code_simp
  have c: "0 \<le> calculateDeviceScore caps lat"
    by (simp add: calculateDeviceScore_unfold)
  from a b c show ?thesis by blast
qed

text \<open>Two scores that double arithmetic decides: 0 and 29, where exact sums give 1 and 30.\<close>

lemma calculateDeviceScore_examples:
  "calculateDeviceScore slowLinkCaps 2 = 0
   \<and> calculateDeviceScore
        \<lparr>hasGPU = True, hasWASM = False, maxMemory = 0, bandwidth = 3, canRender = False,
         canCompute = False, canStore = True\<rparr> 108 = 29"
  by code_simp

text \<open>
  The formula read in exact arithmetic is not what the code returns. With no capability
  flag, no memory, 7 Mbps and a latency of 2 ms the exact sum is \<open>0.7 - 0.2 = 0.5\<close>, which
  rounds to 1; in doubles the difference is just below one half, and the score is 0.
\<close>

theorem calculateDeviceScore_exact_counterexample:
  "calculateDeviceScore slowLinkCaps 2 = 0
   \<and> js_sub (js_div 7 10) (js_div 2 10) = 9007199254740991 / 18014398509481984
   \<and> max 0 (rat_of_int (round (baseContribution slowLinkCaps
              + min (maxMemory slowLinkCaps / 1024) 10
              + min (bandwidth slowLinkCaps / 10) 10 - min (2 / 10) 20))) = 1"
proof -
  have b: "js_sub (js_div 7 10) (js_div 2 10) = 9007199254740991 / 18014398509481984"
    by (simp add: double_eval)
  have a: "calculateDeviceScore slowLinkCaps 2 = 0" by code_simp
  have c: "max 0 (rat_of_int (round (baseContribution slowLinkCaps
              + min (maxMemory slowLinkCaps / 1024) 10
              + min (bandwidth slowLinkCaps / 10) 10 - min (2 / 10) 20))) = 1"
    by (simp add: baseContribution_def slowLinkCaps_def round_def floor_eq_iff)
  from a b c show ?thesis by blast
qed

subsection \<open>Role suggestion\<close>

text \<open>
  C2. \<open>suggestRole\<close> evaluates its rules in order and the first match wins: score at
  least 70 with hasGPU and canRender gives master; otherwise score at least 50 with hasWASM
  and canCompute gives compute; otherwise score at least 30 with canStore gives storage;
  otherwise display. With hasGPU and canRender, score 70 gives master and score 69 does not.
\<close>

theorem suggestRole_rules:
  "(sc \<ge> 70 \<and> hasGPU caps \<and> canRender caps \<longrightarrow> suggestRole caps sc = master)
   \<and> (\<not> (sc \<ge> 70 \<and> hasGPU caps \<and> canRender caps)
        \<and> sc \<ge> 50 \<and> hasWASM caps \<and> canCompute caps \<longrightarrow> suggestRole caps sc = compute)
   \<and> (\<not> (sc \<ge> 70 \<and> hasGPU caps \<and> canRender caps)
        \<and> \<not> (sc \<ge> 50 \<and> hasWASM caps \<and> canCompute caps)
        \<and> sc \<ge> 30 \<and> canStore caps \<longrightarrow> suggestRole caps sc = storage)
   \<and> (\<not> (sc \<ge> 70 \<and> hasGPU caps \<and> canRender caps)
        \<and> \<not> (sc \<ge> 50 \<and> hasWASM caps \<and> canCompute caps)
        \<and> \<not> (sc \<ge> 30 \<and> canStore caps) \<longrightarrow> suggestRole caps sc = display)
   \<and> (hasGPU caps \<and> canRender caps \<longrightarrow>
        suggestRole caps 70 = master \<and> suggestRole caps 69 \<noteq> master)"
  by (simp add: suggestRole_def)

theorem suggestRole_rules_witness:
  "suggestRole fullProfile 70 = master \<and> suggestRole fullProfile 69 = compute
   \<and> suggestRole (fullProfile\<lparr>hasWASM := False\<rparr>) 30 = storage
   \<and> suggestRole (fullProfile\<lparr>hasGPU := False, hasWASM := False, canStore := False\<rparr>) 100
       = display"
  using suggestRole_rules [of 70 fullProfile] suggestRole_rules [of 69 fullProfile]
    suggestRole_rules [of 30 "fullProfile\<lparr>hasWASM := False\<rparr>"]
    suggestRole_rules
      [of 100 "fullProfile\<lparr>hasGPU := False, hasWASM := False, canStore := False\<rparr>"]
  by (simp add: fullProfile_def)

subsection \<open>Master election\<close>

lemma electMaster_deviceScores [simp]: "deviceScores (electMaster me s) = deviceScores s"
  by (simp add: electMaster_def emit_def Let_def split: option.splits)

lemma electMaster_noop: "electWinner (deviceScores s) = masterPeerId s \<Longrightarrow> electMaster me s = s"
  by (simp add: electMaster_def split: option.splits)

lemma electMaster_masterPeerId:
  "masterPeerId (electMaster me s) = electWinner (deviceScores s) \<or> electMaster me s = s"
  by (simp add: electMaster_def emit_def Let_def split: option.splits)

text \<open>
  C3. Election is idempotent: a second election on unchanged inputs computes the same
  winner and elects the same master; it leaves the whole state as the first election left
  it, the trace of notifications included, so no second master-elected or role-changed is
  emitted; and whenever the winner is the master already elected, the election changes
  nothing and emits nothing.
\<close>

theorem electMaster_idempotent:
  "electWinner (deviceScores (electMaster me s)) = electWinner (deviceScores s)
   \<and> masterPeerId (electMaster me (electMaster me s)) = masterPeerId (electMaster me s)
   \<and> electMaster me (electMaster me s) = electMaster me s
   \<and> trace (electMaster me (electMaster me s)) = trace (electMaster me s)
   \<and> (electWinner (deviceScores s) = masterPeerId s \<longrightarrow>
        electMaster me s = s \<and> trace (electMaster me s) = trace s)"
proof -
  have idem: "electMaster me (electMaster me s) = electMaster me s"
  proof (cases "electMaster me s = s")
    case True
    then show ?thesis by simp
  next
    case False
    with electMaster_masterPeerId [of me s]
    have "electWinner (deviceScores (electMaster me s)) = masterPeerId (electMaster me s)"
      by simp
    then show ?thesis by (rule electMaster_noop)
  qed
  then show ?thesis by (simp add: electMaster_noop)
qed

theorem electMaster_idempotent_witness:
  "electWinner (deviceScores electedState) = masterPeerId electedState
   \<and> masterPeerId electedState = Some ''me''
   \<and> electMaster ''me'' electedState = electedState"
proof -
  have h: "electWinner (deviceScores electedState) = masterPeerId electedState"
    by code_simp
  have m: "masterPeerId electedState = Some ''me''"
    by code_simp
  from h m electMaster_idempotent [of "''me''" electedState] show ?thesis by blast
qed

subsection \<open>Distributing a task\<close>

text \<open>
  C6 (as the code has it). Calling \<open>distributeTask\<close> while the engine is not running
  rejects the task: it returns false and leaves the whole state as it was, so nothing is
  dispatched (no message, no pending entry) and no counter moves, the failed-task counter
  included.
\<close>

theorem distributeTask_not_running: "\<not> isRunning s \<Longrightarrow> distributeTask me task s = (False, s)"
  by (simp add: distributeTask_def)

theorem distributeTask_not_running_witness:
  "\<not> isRunning initialState
   \<and> distributeTask ''me'' sampleTask initialState = (False, initialState)"
  using distributeTask_not_running [of initialState "''me''" sampleTask]
  by (simp add: initialState_def)

text \<open>
  The claim as the specification states it, that the rejection increments the failed-task
  counter, fails on the freshly constructed engine.
\<close>

theorem distributeTask_not_running_counterexample:
  "\<not> isRunning initialState
   \<and> fst (distributeTask ''me'' sampleTask initialState) = False
   \<and> failedTasks (metrics (snd (distributeTask ''me'' sampleTask initialState)))
       \<noteq> failedTasks (metrics initialState) + 1"
  by (simp add: distributeTask_def initialState_def)

lemma findBestDeviceForTask_loop_only_self:
  "list_all (\<lambda>device. peerId device = me) devices \<Longrightarrow>
   findBestDeviceForTask_loop me taskType devices acc = acc"
proof (induction devices)
  case Nil
  then show ?case by simp
next
  case (Cons device devices)
  then show ?case by (cases acc) simp
qed

text \<open>
  C7. Distributing a task while the engine is running and every record of the directory is
  the local node's own: no target is found, \<open>distributeTask\<close> returns false and the only
  change of state is \<open>failedTasks\<close> incremented by one; the task is not added to the
  pending map and nothing is sent. The function has no throwing branch on this path.
\<close>

theorem distributeTask_no_peer:
  assumes "isRunning s"
    and "list_all (\<lambda>device. peerId device = me) (Map_values (deviceScores s))"
  shows "findBestDeviceForTask me (taskTypeName (task_type task)) s = None
    \<and> distributeTask me task s
        = (False, s\<lparr>metrics := (metrics s)\<lparr>failedTasks := failedTasks (metrics s) + 1\<rparr>\<rparr>)
    \<and> failedTasks (metrics (snd (distributeTask me task s))) = failedTasks (metrics s) + 1
    \<and> pendingTasks (snd (distributeTask me task s)) = pendingTasks s
    \<and> trace (snd (distributeTask me task s)) = trace s"
proof -
  have none: "findBestDeviceForTask me (taskTypeName (task_type task)) s = None"
    using assms(2) by (simp add: findBestDeviceForTask_def findBestDeviceForTask_loop_only_self)
  with assms(1) show ?thesis by (simp add: distributeTask_def)
qed

theorem distributeTask_no_peer_witness:
  "isRunning aloneRunning
   \<and> list_all (\<lambda>device. peerId device = ''me'') (Map_values (deviceScores aloneRunning))
   \<and> Map_values (deviceScores aloneRunning) \<noteq> []
   \<and> fst (distributeTask ''me'' sampleTask aloneRunning) = False
   \<and> failedTasks (metrics (snd (distributeTask ''me'' sampleTask aloneRunning))) = 1"
proof -
  have r: "isRunning aloneRunning" by code_simp
  have a: "list_all (\<lambda>device. peerId device = ''me'') (Map_values (deviceScores aloneRunning))"
    by code_simp
  have n: "Map_values (deviceScores aloneRunning) \<noteq> []" by code_simp
  have f: "failedTasks (metrics aloneRunning) = 0" by code_simp
  from distributeTask_no_peer [OF r a, of sampleTask] r a n f show ?thesis by simp
qed

subsection \<open>Task results\<close>

text \<open>
  C8. A task-result whose task id is not pending is ignored: the state, with its metrics
  and its trace, is unchanged. A result for a pending task removes the task from the
  pending map, records it as completed, emits one task-completed and leaves the metrics
  alone. A second result for the same id, from whomever and whenever, changes nothing.
\<close>

theorem handleTaskResult_pending_only:
  "(Map_get (pendingTasks s) taskId = None \<longrightarrow>
      handlePeerMessage me now sender (TaskResult taskId result) s = s)
   \<and> (Map_get (pendingTasks s) taskId \<noteq> None \<longrightarrow>
      pendingTasks (handlePeerMessage me now sender (TaskResult taskId result) s)
        = Map_delete taskId (pendingTasks s)
      \<and> Map_get (pendingTasks (handlePeerMessage me now sender (TaskResult taskId result) s))
          taskId = None
      \<and> Map_get (completedTasks (handlePeerMessage me now sender (TaskResult taskId result) s))
          taskId = Some \<lparr>ct_result = result, ct_from = sender, ct_completedAt = now\<rparr>
      \<and> trace (handlePeerMessage me now sender (TaskResult taskId result) s)
          = trace s @ [Emit (TaskCompleted taskId result sender)]
      \<and> metrics (handlePeerMessage me now sender (TaskResult taskId result) s) = metrics s)
   \<and> handlePeerMessage me now' sender' (TaskResult taskId result')
        (handlePeerMessage me now sender (TaskResult taskId result) s)
      = handlePeerMessage me now sender (TaskResult taskId result) s"
  by (auto simp: handleTaskResult_def emit_def Let_def Map_get_def Map_set_def Map_delete_def
      AList.update_conv' AList.delete_conv' split: option.splits)

theorem handleTaskResult_pending_only_witness:
  "Map_get (pendingTasks initialState) ''t1'' = None
   \<and> handlePeerMessage ''me'' 5 ''p'' (TaskResult ''t1'' sampleResult) initialState
       = initialState
   \<and> Map_get (pendingTasks pendingState) ''t1'' \<noteq> None
   \<and> pendingTasks (handlePeerMessage ''me'' 5 ''p'' (TaskResult ''t1'' sampleResult) pendingState)
       = []
   \<and> trace (handlePeerMessage ''me'' 5 ''p'' (TaskResult ''t1'' sampleResult) pendingState)
       = [Emit (TaskCompleted ''t1'' sampleResult ''p'')]"
proof -
  have a: "Map_get (pendingTasks initialState) ''t1'' = None" by code_simp
  have b: "Map_get (pendingTasks pendingState) ''t1'' \<noteq> None" by code_simp
  have c: "Map_delete ''t1'' (pendingTasks pendingState) = []" by code_simp
  have d: "trace pendingState = []" by code_simp
  from a b c d
    handleTaskResult_pending_only [of initialState "''t1''" "''me''" 5 "''p''" sampleResult]
    handleTaskResult_pending_only [of pendingState "''t1''" "''me''" 5 "''p''" sampleResult]
  show ?thesis by simp
qed

subsection \<open>Latency samples\<close>

lemma updateAverageLatency_loop_eq:
  "updateAverageLatency_loop ls (tot, count) =
     (foldl js_add tot (map last (filter (\<lambda>samples. samples \<noteq> []) ls)),
      count + length (filter (\<lambda>samples. samples \<noteq> []) ls))"
  by (induction ls arbitrary: tot count) auto

lemma updateAverageLatency_mean:
  "avgLatency (metrics (updateAverageLatency s)) = meanOfLatest (latencyTests s)"
proof -
  define xs where "xs = filter (\<lambda>samples. samples \<noteq> []) (map snd (latencyTests s))"
  have loop: "updateAverageLatency_loop (Map_values (latencyTests s)) (0, 0)
      = (foldl js_add 0 (map last xs), length xs)"
    by (simp only: updateAverageLatency_loop_eq Map_values_def xs_def add_0)
  have latest: "latestSamples (latencyTests s) = map last xs"
    by (simp only: latestSamples_def xs_def)
  show ?thesis
    by (cases "xs = []") (simp_all add: updateAverageLatency_def loop meanOfLatest_def latest)
qed

lemma updateAverageLatency_others [simp]:
  "latencyTests (updateAverageLatency s) = latencyTests s"
  "deviceScores (updateAverageLatency s) = deviceScores s"
  "trace (updateAverageLatency s) = trace s"
  by (simp_all add: updateAverageLatency_def split: prod.splits)

lemma latencyPong_latencyTests:
  "latencyTests (latencyPong sender lat s) =
     Map_set sender ((case Map_get (latencyTests s) sender of None \<Rightarrow> [] | Some l \<Rightarrow> l) @ [lat])
       (latencyTests s)"
  by (simp add: latencyPong_def emit_def Let_def Map_has_def Map_get_def Map_set_def
      AList.update_conv' split: option.splits)

lemma latencyPong_avg:
  "avgLatency (metrics (latencyPong sender lat s)) = meanOfLatest (latencyTests (latencyPong sender lat s))"
  by (simp add: latencyPong_def emit_def Let_def updateAverageLatency_mean)

lemma latencyPong_trace:
  "trace (latencyPong sender lat s) = trace s @ [Emit (LatencyMeasured sender lat)]"
  by (simp add: latencyPong_def emit_def Let_def Map_has_def Map_get_def Map_set_def
      AList.update_conv' split: option.splits)

lemma latencyPong_known:
  "Map_get (deviceScores s) sender = Some d \<Longrightarrow>
   Map_get (deviceScores (latencyPong sender lat s)) sender
     = Some (d\<lparr>latency := lat, score := calculateDeviceScore (capabilities d) lat\<rparr>)"
  by (simp add: latencyPong_def emit_def Let_def Map_has_def Map_get_def Map_set_def
      AList.update_conv' split: option.splits)

lemma latencyPong_unknown:
  "Map_get (deviceScores s) sender = None \<Longrightarrow>
   deviceScores (latencyPong sender lat s) = deviceScores s"
  by (simp add: latencyPong_def emit_def Let_def Map_has_def Map_get_def Map_set_def
      AList.update_conv' split: option.splits)

text \<open>
  C5 (as the code has it). Every latency-pong, from a peer in the directory or not, appends
  its sample (the clock reading minus the echoed timestamp, a double subtraction) to the
  sender's latency history (starting one if there is none), recomputes
  the average-latency metric and emits latency-measured. If the sender is in the directory,
  its record takes the sample as its latency and its score is recomputed from its
  capability profile and the sample; if it is not, the directory is left as it was.
\<close>

theorem latencyPong_effect:
  "Map_get (latencyTests (handlePeerMessage me now sender (LatencyPong sent x) s)) sender
     = Some ((case Map_get (latencyTests s) sender of None \<Rightarrow> [] | Some l \<Rightarrow> l) @ [js_sub now sent])
   \<and> avgLatency (metrics (handlePeerMessage me now sender (LatencyPong sent x) s))
       = meanOfLatest (latencyTests (handlePeerMessage me now sender (LatencyPong sent x) s))
   \<and> trace (handlePeerMessage me now sender (LatencyPong sent x) s)
       = trace s @ [Emit (LatencyMeasured sender (js_sub now sent))]
   \<and> (\<forall>d. Map_get (deviceScores s) sender = Some d \<longrightarrow>
        (\<exists>d'. Map_get (deviceScores (handlePeerMessage me now sender (LatencyPong sent x) s)) sender
                = Some d'
              \<and> latency d' = js_sub now sent
              \<and> score d' = calculateDeviceScore (capabilities d) (js_sub now sent)
              \<and> capabilities d' = capabilities d))
   \<and> (Map_get (deviceScores s) sender = None \<longrightarrow>
        deviceScores (handlePeerMessage me now sender (LatencyPong sent x) s) = deviceScores s)"
proof -
  have hist: "Map_get (latencyTests (latencyPong sender (js_sub now sent) s)) sender
     = Some ((case Map_get (latencyTests s) sender of None \<Rightarrow> [] | Some l \<Rightarrow> l) @ [js_sub now sent])"
    by (simp add: latencyPong_latencyTests Map_get_def Map_set_def AList.update_conv')
  have known: "\<forall>d. Map_get (deviceScores s) sender = Some d \<longrightarrow>
        (\<exists>d'. Map_get (deviceScores (latencyPong sender (js_sub now sent) s)) sender = Some d'
              \<and> latency d' = js_sub now sent
              \<and> score d' = calculateDeviceScore (capabilities d) (js_sub now sent)
              \<and> capabilities d' = capabilities d)"
    by (simp add: latencyPong_known)
  from hist known show ?thesis
    by (simp add: latencyPong_avg latencyPong_trace latencyPong_unknown)
qed

theorem latencyPong_effect_witness:
  "Map_get (deviceScores twoPeers) ''p'' \<noteq> None
   \<and> map_option latency
        (Map_get (deviceScores (handlePeerMessage ''me'' 200 ''p'' (LatencyPong 0 ''p'') twoPeers))
           ''p'') = Some 200
   \<and> map_option score
        (Map_get (deviceScores (handlePeerMessage ''me'' 200 ''p'' (LatencyPong 0 ''p'') twoPeers))
           ''p'') = Some 60
   \<and> Map_get (deviceScores initialState) ''q'' = None
   \<and> deviceScores (handlePeerMessage ''me'' 30 ''q'' (LatencyPong 0 ''q'') initialState) = []
   \<and> Map_get (latencyTests (handlePeerMessage ''me'' 30 ''q'' (LatencyPong 0 ''q'') initialState))
        ''q'' = Some [30]"
proof -
  have k: "Map_get (deviceScores twoPeers) ''p''
      = Some \<lparr>peerId = ''p'', peerName = ''P'', score = 75, capabilities = gpuCaps,
              suggestedRole = master, latency = 50\<rparr>"
    by code_simp
  have c: "calculateDeviceScore gpuCaps 200 = 60" by code_simp
  have j: "js_sub 200 0 = 200" "js_sub 30 0 = 30" by code_simp+
  have u: "Map_get (deviceScores initialState) ''q'' = None" by code_simp
  have e: "deviceScores initialState = []" by code_simp
  have l: "Map_get (latencyTests initialState) ''q'' = None" by code_simp
  from k c j latencyPong_effect [of "''me''" 200 "''p''" 0 "''p''" twoPeers]
  have known: "map_option latency
        (Map_get (deviceScores (handlePeerMessage ''me'' 200 ''p'' (LatencyPong 0 ''p'') twoPeers))
           ''p'') = Some 200
     \<and> map_option score
        (Map_get (deviceScores (handlePeerMessage ''me'' 200 ''p'' (LatencyPong 0 ''p'') twoPeers))
           ''p'') = Some 60"
    by auto
  from u e l j latencyPong_effect [of "''me''" 30 "''q''" 0 "''q''" initialState]
  have unknown: "deviceScores (handlePeerMessage ''me'' 30 ''q'' (LatencyPong 0 ''q'') initialState) = []
     \<and> Map_get (latencyTests (handlePeerMessage ''me'' 30 ''q'' (LatencyPong 0 ''q'') initialState))
        ''q'' = Some [30]"
    by simp
  from k u known unknown show ?thesis by simp
qed

text \<open>
  The claim as the specification states it fails on three counts. A sample from a peer
  that is not in the directory is not a no-op: it is recorded in the latency history. For a
  peer in the directory the suggested role is not recomputed: the remote node of
  \<open>twoPeers\<close> falls to score 60 at 200 ms, for which \<open>suggestRole\<close> gives storage, and
  keeps the role master. And no election is run: the local node would now win, and the
  remote one stays master.
\<close>

theorem latencyPong_claim_counterexample:
  "Map_get (deviceScores initialState) ''q'' = None
   \<and> handlePeerMessage ''me'' 30 ''q'' (LatencyPong 0 ''q'') initialState \<noteq> initialState
   \<and> latencyTests (handlePeerMessage ''me'' 30 ''q'' (LatencyPong 0 ''q'') initialState)
       = [(''q'', [30])]
   \<and> Map_get (deviceScores (handlePeerMessage ''me'' 200 ''p'' (LatencyPong 0 ''p'') twoPeers)) ''p''
       = Some \<lparr>peerId = ''p'', peerName = ''P'', score = 60, capabilities = gpuCaps,
               suggestedRole = master, latency = 200\<rparr>
   \<and> suggestRole gpuCaps 60 = storage
   \<and> electWinner (deviceScores (handlePeerMessage ''me'' 200 ''p'' (LatencyPong 0 ''p'') twoPeers))
       = Some ''me''
   \<and> masterPeerId (handlePeerMessage ''me'' 200 ''p'' (LatencyPong 0 ''p'') twoPeers) = Some ''p''"
proof -
  have a: "Map_get (deviceScores initialState) ''q'' = None" by code_simp
  have b: "latencyTests (handlePeerMessage ''me'' 30 ''q'' (LatencyPong 0 ''q'') initialState)
       = [(''q'', [30])]" by code_simp
  have b0: "latencyTests initialState = []" by code_simp
  from b b0 have c: "handlePeerMessage ''me'' 30 ''q'' (LatencyPong 0 ''q'') initialState \<noteq> initialState"
    by auto
  have d: "Map_get (deviceScores (handlePeerMessage ''me'' 200 ''p'' (LatencyPong 0 ''p'') twoPeers)) ''p''
       = Some \<lparr>peerId = ''p'', peerName = ''P'', score = 60, capabilities = gpuCaps,
               suggestedRole = master, latency = 200\<rparr>" by code_simp
  have e: "suggestRole gpuCaps 60 = storage" by code_simp
  have f: "electWinner (deviceScores (handlePeerMessage ''me'' 200 ''p'' (LatencyPong 0 ''p'') twoPeers))
       = Some ''me''" by code_simp
  have g: "masterPeerId (handlePeerMessage ''me'' 200 ''p'' (LatencyPong 0 ''p'') twoPeers) = Some ''p''"
    by code_simp
  from a b c d e f g show ?thesis by blast
qed


lemma run_Cons: "run me (e # es) s = run me es (step me s e)"
  by (simp add: run_def)









subsection \<open>The directory never shrinks\<close>

lemma keys_Map_set:
  "fst ` set (Map_set k v m) = insert k (fst ` set m)"
  by (simp add: Map_set_def AList.dom_update)

lemma length_Map_set: "length m \<le> length (Map_set k v m)"
  unfolding Map_set_def by (induction m) auto

lemma Map_set_present_keys:
  "map_of m k \<noteq> None \<Longrightarrow> map fst (Map_set k v m) = map fst m"
  by (simp add: Map_set_def AList.update_keys map_of_eq_None_iff)

lemma Map_get_Map_set_other:
  "k' \<noteq> k \<Longrightarrow> Map_get (Map_set k v m) k' = Map_get m k'"
  by (simp add: Map_get_def Map_set_def AList.update_conv')

lemma updateDeviceScores_loop_present:
  "Map_has (deviceScores s) (peer_id peer) \<Longrightarrow>
   updateDeviceScores_loop (peer # peers) s = updateDeviceScores_loop peers s"
  by simp

lemma updateDeviceScores_loop_absent:
  "\<not> Map_has (deviceScores s) (peer_id peer) \<Longrightarrow>
   \<exists>v. updateDeviceScores_loop (peer # peers) s =
     updateDeviceScores_loop peers
       (s\<lparr>deviceScores := Map_set (peer_id peer) v (deviceScores s)\<rparr>)"
  by (simp add: Let_def) blast

lemma updateDeviceScores_loop_keeps:
  "Map_get (deviceScores s) k = Some d \<Longrightarrow>
   Map_get (deviceScores (updateDeviceScores_loop peers s)) k = Some d"
proof (induction peers arbitrary: s)
  case Nil
  then show ?case by simp
next
  case (Cons peer peers)
  show ?case
  proof (cases "Map_has (deviceScores s) (peer_id peer)")
    case True
    from Cons.IH [OF Cons.prems] show ?thesis
      by (simp only: updateDeviceScores_loop_present [OF True])
  next
    case False
    with Cons.prems have ne: "k \<noteq> peer_id peer"
      by (auto simp: Map_has_def Map_get_def)
    from updateDeviceScores_loop_absent [OF False] obtain v where
      v: "updateDeviceScores_loop (peer # peers) s =
          updateDeviceScores_loop peers
            (s\<lparr>deviceScores := Map_set (peer_id peer) v (deviceScores s)\<rparr>)"
      by blast
    have "Map_get (deviceScores (s\<lparr>deviceScores := Map_set (peer_id peer) v (deviceScores s)\<rparr>)) k
        = Some d"
      using Cons.prems ne by (simp add: Map_get_Map_set_other)
    from Cons.IH [OF this] show ?thesis by (simp only: v)
  qed
qed

lemma updateDeviceScores_loop_grows:
  "fst ` set (deviceScores s) \<subseteq> fst ` set (deviceScores (updateDeviceScores_loop peers s))
   \<and> length (deviceScores s) \<le> length (deviceScores (updateDeviceScores_loop peers s))
   \<and> metrics (updateDeviceScores_loop peers s) = metrics s"
proof (induction peers arbitrary: s)
  case Nil
  then show ?case by simp
next
  case (Cons peer peers)
  show ?case
  proof (cases "Map_has (deviceScores s) (peer_id peer)")
    case True
    from Cons.IH [of s] show ?thesis
      by (simp only: updateDeviceScores_loop_present [OF True])
  next
    case False
    from updateDeviceScores_loop_absent [OF False] obtain v where
      v: "updateDeviceScores_loop (peer # peers) s =
          updateDeviceScores_loop peers
            (s\<lparr>deviceScores := Map_set (peer_id peer) v (deviceScores s)\<rparr>)"
      by blast
    define s' where "s' = s\<lparr>deviceScores := Map_set (peer_id peer) v (deviceScores s)\<rparr>"
    have a: "fst ` set (deviceScores s) \<subseteq> fst ` set (deviceScores s')"
      by (auto simp: s'_def keys_Map_set)
    have b: "length (deviceScores s) \<le> length (deviceScores s')"
      by (simp add: s'_def length_Map_set)
    have c: "metrics s' = metrics s" by (simp add: s'_def)
    from Cons.IH [of s']
    have ih1: "fst ` set (deviceScores s') \<subseteq> fst ` set (deviceScores (updateDeviceScores_loop peers s'))"
      and ih2: "length (deviceScores s') \<le> length (deviceScores (updateDeviceScores_loop peers s'))"
      and ih3: "metrics (updateDeviceScores_loop peers s') = metrics s'"
      by simp_all
    have e: "updateDeviceScores_loop (peer # peers) s = updateDeviceScores_loop peers s'"
      by (simp only: v s'_def)
    from a ih1 have g1: "fst ` set (deviceScores s) \<subseteq> fst ` set (deviceScores (updateDeviceScores_loop peers s'))"
      by (rule subset_trans)
    from b ih2 have g2: "length (deviceScores s) \<le> length (deviceScores (updateDeviceScores_loop peers s'))"
      by (rule le_trans)
    from ih3 c have g3: "metrics (updateDeviceScores_loop peers s') = metrics s" by simp
    from g1 g2 g3 show ?thesis by (simp only: e simp_thms)
  qed
qed


lemma electMaster_totalDevices [simp]:
  "totalDevices (metrics (electMaster me s)) = totalDevices (metrics s)"
  by (simp add: electMaster_def emit_def Let_def split: option.splits)

lemma updateDeviceScores_deviceScores:
  "deviceScores (updateDeviceScores me peers s) = deviceScores (updateDeviceScores_loop peers s)"
  by (simp add: updateDeviceScores_def emit_def Let_def)

lemma updateDeviceScores_totalDevices:
  "totalDevices (metrics (updateDeviceScores me peers s))
     = length (deviceScores (updateDeviceScores_loop peers s))"
  by (simp add: updateDeviceScores_def emit_def Let_def)

lemma wifiDiscovered_same [simp]:
  "deviceScores (wifiDiscovered discovered s) = deviceScores s"
  "metrics (wifiDiscovered discovered s) = metrics s"
  by (induction discovered arbitrary: s) (simp_all add: emit_def)

lemma updateAverageLatency_totalDevices [simp]:
  "totalDevices (metrics (updateAverageLatency s)) = totalDevices (metrics s)"
  by (simp add: updateAverageLatency_def split: prod.splits)

lemma latencyPong_keys:
  "map fst (deviceScores (latencyPong sender lat s)) = map fst (deviceScores s)"
proof (cases "Map_get (deviceScores s) sender")
  case None
  then show ?thesis by (simp add: latencyPong_unknown)
next
  case (Some d)
  then have "deviceScores (latencyPong sender lat s)
      = Map_set sender (d\<lparr>latency := lat, score := calculateDeviceScore (capabilities d) lat\<rparr>)
          (deviceScores s)"
    by (simp add: latencyPong_def emit_def Let_def Map_has_def Map_get_def Map_set_def
        split: option.splits)
  with Some show ?thesis by (simp add: Map_set_present_keys Map_get_def)
qed

lemma latencyPong_totalDevices:
  "totalDevices (metrics (latencyPong sender lat s)) = totalDevices (metrics s)"
  by (simp add: latencyPong_def emit_def Let_def split: option.splits)


lemma handlePeerMessage_keys:
  "map fst (deviceScores (handlePeerMessage me now sender msg s)) = map fst (deviceScores s)"
proof (cases msg)
  case (LatencyPong ts x)
  then show ?thesis by (simp add: latencyPong_keys)
next
  case (TaskResult tid res)
  then show ?thesis
    by (simp add: handleTaskResult_def emit_def Let_def split: option.splits)
qed (simp_all add: sendToPeer_def handleTaskAssignment_def emit_def processRenderRequest_def
    Let_def)

lemma handlePeerMessage_totalDevices:
  "totalDevices (metrics (handlePeerMessage me now sender msg s)) = totalDevices (metrics s)"
proof (cases msg)
  case (LatencyPong ts x)
  then show ?thesis by (simp add: latencyPong_totalDevices)
next
  case (TaskResult tid res)
  then show ?thesis
    by (simp add: handleTaskResult_def emit_def Let_def split: option.splits)
qed (simp_all add: sendToPeer_def handleTaskAssignment_def emit_def processRenderRequest_def
    Let_def)

lemma distributeTask_same:
  "deviceScores (snd (distributeTask me task s)) = deviceScores s"
  "totalDevices (metrics (snd (distributeTask me task s))) = totalDevices (metrics s)"
  by (simp_all add: distributeTask_def sendToPeer_def Let_def split: option.splits)


lemma step_initialize:
  "fst ` set (deviceScores s) \<subseteq> fst ` set (deviceScores (initialize me n caps s))
   \<and> length (deviceScores s) \<le> length (deviceScores (initialize me n caps s))
   \<and> totalDevices (metrics (initialize me n caps s)) = totalDevices (metrics s)"
  by (auto simp: initialize_def emit_def Let_def keys_Map_set length_Map_set)

lemma step_keys_same:
  assumes "\<forall>c n caps. e \<noteq> Initialize c n caps" and "\<forall>peers. e \<noteq> PeersUpdated peers"
  shows "map fst (deviceScores (step me s e)) = map fst (deviceScores s)
   \<and> totalDevices (metrics (step me s e)) = totalDevices (metrics s)"
proof (cases e)
  case (Initialize c n caps)
  with assms(1) show ?thesis by blast
next
  case (PeersUpdated peers)
  with assms(2) show ?thesis by blast
next
  case (Data now sender msg)
  then show ?thesis by (simp add: handlePeerMessage_keys handlePeerMessage_totalDevices)
next
  case (ChannelOpen now pid)
  then show ?thesis by (simp add: measureLatency_def sendToPeer_def)
next
  case (WiFiDiscovered ds)
  then show ?thesis by simp
next
  case (DistributeTask task)
  then show ?thesis by (simp add: distributeTask_same)
next
  case (RequestRender now fid)
  then show ?thesis by (simp add: requestRender_def sendToPeer_def split: option.splits)
next
  case Start
  then show ?thesis by (simp add: start_def emit_def)
next
  case Stop
  then show ?thesis by (simp add: stop_def emit_def)
qed

lemma step_keys_grow:
  "fst ` set (deviceScores s) \<subseteq> fst ` set (deviceScores (step me s e))"
proof (cases e)
  case (Initialize c n caps)
  with step_initialize [of s me n caps] show ?thesis by (cases c) simp_all
next
  case (PeersUpdated peers)
  with updateDeviceScores_loop_grows [of s peers] show ?thesis
    by (simp add: updateDeviceScores_deviceScores)
next
  case (Data now sender msg)
  have "set (map fst (deviceScores (handlePeerMessage me now sender msg s)))
      = set (map fst (deviceScores s))"
    by (simp only: handlePeerMessage_keys)
  with Data show ?thesis by simp
next
  case (ChannelOpen now pid)
  then show ?thesis by (simp add: measureLatency_def sendToPeer_def)
next
  case (WiFiDiscovered ds)
  then show ?thesis by simp
next
  case (DistributeTask task)
  then show ?thesis by (simp add: distributeTask_same)
next
  case (RequestRender now fid)
  then show ?thesis by (simp add: requestRender_def sendToPeer_def split: option.splits)
next
  case Start
  then show ?thesis by (simp add: start_def emit_def)
next
  case Stop
  then show ?thesis by (simp add: stop_def emit_def)
qed

lemma step_grows:
  assumes "totalDevices (metrics s) \<le> length (deviceScores s)"
  shows "fst ` set (deviceScores s) \<subseteq> fst ` set (deviceScores (step me s e))
    \<and> totalDevices (metrics s) \<le> totalDevices (metrics (step me s e))
    \<and> totalDevices (metrics (step me s e)) \<le> length (deviceScores (step me s e))"
proof (cases e)
  case (Initialize c n caps)
  with assms step_initialize [of s me n caps] show ?thesis
    by (cases c) auto
next
  case (PeersUpdated peers)
  with assms updateDeviceScores_loop_grows [of s peers] show ?thesis
    by (simp add: updateDeviceScores_deviceScores updateDeviceScores_totalDevices)
next
  case (Data now sender msg)
  with step_keys_same [of e me s]
  have k: "map fst (deviceScores (step me s e)) = map fst (deviceScores s)"
    and t: "totalDevices (metrics (step me s e)) = totalDevices (metrics s)" by simp_all
  from k have "set (map fst (deviceScores (step me s e))) = set (map fst (deviceScores s))"
    and "length (map fst (deviceScores (step me s e))) = length (map fst (deviceScores s))"
    by simp_all
  with t assms show ?thesis by simp
next
  case (ChannelOpen now pid)
  with assms show ?thesis by (simp add: measureLatency_def sendToPeer_def)
next
  case (WiFiDiscovered ds)
  with assms show ?thesis by simp
next
  case (DistributeTask task)
  with assms show ?thesis by (simp add: distributeTask_same)
next
  case (RequestRender now fid)
  with assms show ?thesis by (simp add: requestRender_def sendToPeer_def split: option.splits)
next
  case Start
  with assms show ?thesis by (simp add: start_def emit_def)
next
  case Stop
  with assms show ?thesis by (simp add: stop_def emit_def)
qed

lemma run_grows:
  assumes "totalDevices (metrics s) \<le> length (deviceScores s)"
  shows "fst ` set (deviceScores s) \<subseteq> fst ` set (deviceScores (run me es s))
    \<and> totalDevices (metrics s) \<le> totalDevices (metrics (run me es s))
    \<and> totalDevices (metrics (run me es s)) \<le> length (deviceScores (run me es s))"
  using assms
proof (induction es arbitrary: s)
  case Nil
  then show ?case by (simp add: run_def)
next
  case (Cons e es)
  from step_grows [OF Cons.prems, of me e]
  have s1: "fst ` set (deviceScores s) \<subseteq> fst ` set (deviceScores (step me s e))"
    and s2: "totalDevices (metrics s) \<le> totalDevices (metrics (step me s e))"
    and s3: "totalDevices (metrics (step me s e)) \<le> length (deviceScores (step me s e))"
    by simp_all
  from Cons.IH [OF s3]
  have r1: "fst ` set (deviceScores (step me s e))
        \<subseteq> fst ` set (deviceScores (run me es (step me s e)))"
    and r2: "totalDevices (metrics (step me s e))
        \<le> totalDevices (metrics (run me es (step me s e)))"
    and r3: "totalDevices (metrics (run me es (step me s e)))
        \<le> length (deviceScores (run me es (step me s e)))"
    by simp_all
  from s1 r1 have g1: "fst ` set (deviceScores s)
      \<subseteq> fst ` set (deviceScores (run me es (step me s e)))" by (rule subset_trans)
  from s2 r2 have g2: "totalDevices (metrics s)
      \<le> totalDevices (metrics (run me es (step me s e)))" by (rule le_trans)
  from g1 g2 r3 show ?case by (simp only: run_Cons simp_thms)
qed

lemma run_append: "run me (es @ es') s = run me es' (run me es s)"
  by (simp add: run_def)

lemma initialState_bound: "totalDevices (metrics initialState) \<le> length (deviceScores initialState)"
  by (simp add: initialState_def)

text \<open>
  C10. No operation removes a record from the directory. Over any sequence of events from
  the constructed engine, the peerIds in the directory after a prefix are still there after
  the whole sequence, and \<open>totalDevices\<close> has not decreased. Step by step, from any state:
  no event removes a peerId; \<open>stop\<close> leaves the directory as it is; a peer message (a
  latency sample among them) keeps the peerIds and their order; a peer-list update keeps
  every record it finds.
\<close>

theorem directory_never_shrinks:
  "fst ` set (deviceScores (run me es initialState))
     \<subseteq> fst ` set (deviceScores (run me (es @ es') initialState))
   \<and> totalDevices (metrics (run me es initialState))
       \<le> totalDevices (metrics (run me (es @ es') initialState))
   \<and> fst ` set (deviceScores s) \<subseteq> fst ` set (deviceScores (step me s e))
   \<and> deviceScores (stop s) = deviceScores s
   \<and> map fst (deviceScores (handlePeerMessage me now sender msg s)) = map fst (deviceScores s)
   \<and> (\<forall>k d. Map_get (deviceScores s) k = Some d \<longrightarrow>
         Map_get (deviceScores (updateDeviceScores me peers s)) k = Some d)"
proof -
  from run_grows [OF initialState_bound, of me es]
  have b: "totalDevices (metrics (run me es initialState))
      \<le> length (deviceScores (run me es initialState))" by simp
  from run_grows [OF b, of me es']
  have a: "fst ` set (deviceScores (run me es initialState))
     \<subseteq> fst ` set (deviceScores (run me (es @ es') initialState))
   \<and> totalDevices (metrics (run me es initialState))
       \<le> totalDevices (metrics (run me (es @ es') initialState))"
    by (simp add: run_append)
  have c: "fst ` set (deviceScores s) \<subseteq> fst ` set (deviceScores (step me s e))"
    by (rule step_keys_grow)
  have d: "deviceScores (stop s) = deviceScores s" by (simp add: stop_def emit_def)
  have e: "\<forall>k d. Map_get (deviceScores s) k = Some d \<longrightarrow>
         Map_get (deviceScores (updateDeviceScores me peers s)) k = Some d"
    by (simp add: updateDeviceScores_deviceScores updateDeviceScores_loop_keeps)
  from a c d e show ?thesis by (simp add: handlePeerMessage_keys)
qed


theorem directory_never_shrinks_witness:
  "Map_get (deviceScores aloneRunning) ''me'' \<noteq> None
   \<and> Map_get (deviceScores (updateDeviceScores ''me'' [gpuPeer] aloneRunning)) ''me''
       = Map_get (deviceScores aloneRunning) ''me''"
proof -
  have k: "Map_get (deviceScores aloneRunning) ''me''
      = Some \<lparr>peerId = ''me'', peerName = ''Me'', score = 110, capabilities = fullProfile,
              suggestedRole = master, latency = 0\<rparr>"
    by code_simp
  from k directory_never_shrinks
    [where s = aloneRunning and peers = "[gpuPeer]" and me = "''me''" and es = "[]"
       and es' = "[]" and e = Stop and now = 0 and sender = "''p''" and msg = "Other ''x''"]
  show ?thesis by auto
qed

subsection \<open>Target selection\<close>

text \<open>
  What \<open>findBestDeviceForTask\<close> computes: of the records other than the local node's, the
  first one of maximum suitability, but only if that suitability exceeds the initial
  \<open>bestScore\<close> of \<open>-1\<close>.
\<close>

lemma findBestDeviceForTask_loop_firstMax:
  "findBestDeviceForTask_loop me taskType devices (bestDevice, bestScore) =
     (case firstMax (suitability taskType) (filter (\<lambda>device. peerId device \<noteq> me) devices) of
        None \<Rightarrow> (bestDevice, bestScore)
      | Some device \<Rightarrow>
          if suitability taskType device > bestScore
          then (Some device, suitability taskType device) else (bestDevice, bestScore))"
  by (induction devices arbitrary: bestDevice bestScore) (auto split: option.splits)

lemma findBestDeviceForTask_firstMax:
  "findBestDeviceForTask me taskType s =
     (case firstMax (suitability taskType)
             (filter (\<lambda>device. peerId device \<noteq> me) (Map_values (deviceScores s))) of
        None \<Rightarrow> None
      | Some device \<Rightarrow> if suitability taskType device > - 1 then Some device else None)"
  by (simp add: findBestDeviceForTask_def findBestDeviceForTask_loop_firstMax
      split: option.splits)

text \<open>
  C4. Target selection is meant to pick, among all peers but the local node, the one of
  maximum suitability (score plus affinity bonus minus latency/5). On the example of the
  specification it does: for a render task the GPU record of score 50 is chosen over the
  record of score 60. But a started node whose only remote peer is a storage device of score
  0 at latency 50 ms (suitability \<open>-10\<close>) selects nobody, and the task fails.
\<close>

theorem findBestDeviceForTask_slow_peer:
  "Map_get (deviceScores withStoragePeer) ''p''
     = Some \<lparr>peerId = ''p'', peerName = ''P'', score = 0, capabilities = storageCaps,
             suggestedRole = display, latency = 50\<rparr>
   \<and> isRunning withStoragePeer
   \<and> suitability ''render''
        \<lparr>peerId = ''p'', peerName = ''P'', score = 0, capabilities = storageCaps,
         suggestedRole = display, latency = 50\<rparr> = - 10
   \<and> findBestDeviceForTask ''me'' ''render'' withStoragePeer = None
   \<and> fst (distributeTask ''me'' sampleTask withStoragePeer) = False
   \<and> findBestDeviceForTask ''me'' ''render'' affinityState = Some gpuRecord"
proof -
  have a: "Map_get (deviceScores withStoragePeer) ''p''
     = Some \<lparr>peerId = ''p'', peerName = ''P'', score = 0, capabilities = storageCaps,
             suggestedRole = display, latency = 50\<rparr>" by code_simp
  have b: "isRunning withStoragePeer" by code_simp
  have c: "suitability ''render''
        \<lparr>peerId = ''p'', peerName = ''P'', score = 0, capabilities = storageCaps,
         suggestedRole = display, latency = 50\<rparr> = - 10" by code_simp
  have d: "findBestDeviceForTask ''me'' ''render'' withStoragePeer = None" by code_simp
  have e: "fst (distributeTask ''me'' sampleTask withStoragePeer) = False" by code_simp
  have f: "findBestDeviceForTask ''me'' ''render'' affinityState = Some gpuRecord" by code_simp
  from a b c d e f show ?thesis by blast
qed

end
